theory Spec2Isabelle
  imports Main "HOL-Library.Word" "HOL-Library.Signed_Division"
begin

section \<open>Data model of the activity monitor\<close>

text \<open>
  The model follows \<^verbatim>\<open>src/libs/core/src/LocalActivityMonitor.cc\<close>.
  \<^verbatim>\<open>gint64\<close> is a 64-bit word read as two's complement, \<^verbatim>\<open>int\<close> a 32-bit
  word; subtraction, addition and multiplication wrap, comparisons are the signed ones.
  The clock \<^verbatim>\<open>g_get_real_time()\<close> is an argument \<open>now\<close> of every operation that
  reads it (each reads it at most once).
\<close>

type_synonym gint64 = "64 word"
type_synonym cint = "32 word"

text \<open>
  The enumeration is declared outside the source file; these are the four values the
  source file uses.
\<close>

datatype ActivityState =
  ACTIVITY_SUSPENDED | ACTIVITY_IDLE | ACTIVITY_NOISE | ACTIVITY_ACTIVE

text \<open>
  What an operation does towards the outside is recorded in a trace:
  \<^item> \<open>Action now\<close>: \<^verbatim>\<open>action_notify\<close> was entered at clock value \<open>now\<close>;
  \<^item> \<open>Published v\<close>: the state variable reported the value \<open>v\<close> to its subscribers;
  \<^item> \<open>Notified p n\<close>: the listener \<open>p\<close> was called (\<^verbatim>\<open>l->action_notify()\<close>) while
    the calling thread held the monitor's lock \<open>n\<close> times.
\<close>

datatype event = Action gint64 | Published ActivityState | Notified nat nat

text \<open>
  The fields of the class. \<open>listener\<close> is the raw pointer (\<open>None\<close> is
  \<^verbatim>\<open>nullptr\<close>). \<open>lock\<close> is the number of acquisitions of the mutex the calling
  thread holds: \<^verbatim>\<open>mouse_notify\<close>, \<^verbatim>\<open>button_notify\<close> and
  \<^verbatim>\<open>keyboard_notify\<close> call \<^verbatim>\<open>action_notify\<close> with the lock held, and
  \<^verbatim>\<open>action_notify\<close> acquires it again, so these operations return only with a
  re-entrant mutex; the mutex class itself is declared outside the source file.
  The thresholds hold microseconds and are compared with \<^verbatim>\<open>gint64\<close>
  differences; they are 64-bit values here, which is also what a narrower signed member
  is widened to at each comparison.
\<close>

record ActivityMonitor =
  activity_state :: ActivityState
  noise_threshold :: gint64
  activity_threshold :: gint64
  idle_threshold :: gint64
  sensitivity :: cint
  first_action_time :: gint64
  last_action_time :: gint64
  prev_x :: cint
  prev_y :: cint
  button_is_pressed :: bool
  listener :: "nat option"
  lock :: nat
  trace :: "event list"

text \<open>glib's \<^verbatim>\<open>G_USEC_PER_SEC\<close>, the \<^verbatim>\<open>int\<close> literal 1000000.\<close>

definition G_USEC_PER_SEC :: cint where
  "G_USEC_PER_SEC = 1000000"

section \<open>Primitives\<close>

definition lock_lock :: "ActivityMonitor \<Rightarrow> ActivityMonitor" where
  "lock_lock s = s\<lparr>lock := Suc (lock s)\<rparr>"

definition lock_unlock :: "ActivityMonitor \<Rightarrow> ActivityMonitor" where
  "lock_unlock s = s\<lparr>lock := lock s - 1\<rparr>"

text \<open>
  \<^verbatim>\<open>activity_state = v\<close>. The class of the state variable is declared outside the
  source file, so what its assignment operator reports to subscribers is the parameter
  \<open>asg\<close> of every operation that assigns: the values published when the value
  \<open>old\<close> is overwritten with \<open>new\<close>.
\<close>

type_synonym assignment = "ActivityState \<Rightarrow> ActivityState \<Rightarrow> ActivityState list"

text \<open>
  Modelled from the spec: the assignment operator of the state variable's class, which
  is not in the source file. The spec describes the state variable as a mutable value
  with self-publishing assignment, one that publishes itself on write: every assignment
  publishes the value written.
\<close>

definition self_publishing :: assignment where
  "self_publishing old new = [new]"

definition assign_state :: "assignment \<Rightarrow> ActivityState \<Rightarrow> ActivityMonitor \<Rightarrow> ActivityMonitor" where
  "assign_state asg v s =
     s\<lparr>activity_state := v,
       trace := trace s @ map Published (asg (activity_state s) v)\<rparr>"

text \<open>\<^verbatim>\<open>activity_state.publish()\<close>.\<close>

definition publish :: "ActivityMonitor \<Rightarrow> ActivityMonitor" where
  "publish s = s\<lparr>trace := trace s @ [Published (activity_state s)]\<rparr>"

text \<open>C's \<^verbatim>\<open>abs\<close> on \<^verbatim>\<open>int\<close>; the negation wraps at the least value.\<close>

definition abs_int :: "cint \<Rightarrow> cint" where
  "abs_int d = (if d <s 0 then - d else d)"

text \<open>
  \<^verbatim>\<open>t / 1000\<close> stored into an \<^verbatim>\<open>int\<close>: C++ division truncates towards zero,
  the store keeps the low 32 bits.
\<close>

definition to_msec :: "gint64 \<Rightarrow> cint" where
  "to_msec t = word_of_int (sint t sdiv 1000)"

section \<open>Operations\<close>

text \<open>
  The constructor body sets the three thresholds. The other members keep what the
  class declaration gives them, which is the argument \<open>members\<close>; the subscription
  to the input monitor only registers the object as receiver of the callbacks below.
\<close>

definition ActivityMonitor_ctor :: "ActivityMonitor \<Rightarrow> ActivityMonitor" where
  "ActivityMonitor_ctor members =
     members\<lparr>noise_threshold := scast (1 * G_USEC_PER_SEC),
              activity_threshold := scast (2 * G_USEC_PER_SEC),
              idle_threshold := scast (5 * G_USEC_PER_SEC)\<rparr>"

definition suspend :: "assignment \<Rightarrow> ActivityMonitor \<Rightarrow> ActivityMonitor" where
  "suspend asg s =
     publish (lock_unlock (assign_state asg ACTIVITY_SUSPENDED (lock_lock s)))"

definition resume :: "assignment \<Rightarrow> ActivityMonitor \<Rightarrow> ActivityMonitor" where
  "resume asg s =
     publish (lock_unlock (assign_state asg ACTIVITY_IDLE (lock_lock s)))"

definition force_idle :: "assignment \<Rightarrow> ActivityMonitor \<Rightarrow> ActivityMonitor" where
  "force_idle asg s =
     (let s1 = lock_lock s;
          s2 = (if activity_state s1 \<noteq> ACTIVITY_SUSPENDED
                then (assign_state asg ACTIVITY_IDLE s1)\<lparr>last_action_time := 0\<rparr>
                else s1)
      in publish (lock_unlock s2))"

definition get_current_state ::
  "assignment \<Rightarrow> gint64 \<Rightarrow> ActivityMonitor \<Rightarrow> ActivityState \<times> ActivityMonitor" where
  "get_current_state asg now s =
     (let s1 = lock_lock s;
          s2 = (if activity_state s1 = ACTIVITY_ACTIVE
                then (let tv = now - last_action_time s1
                      in if idle_threshold s1 <s tv
                         then assign_state asg ACTIVITY_IDLE s1
                         else s1)
                else s1);
          s3 = publish (lock_unlock s2)
      in (activity_state s3, s3))"

definition set_parameters ::
  "assignment \<Rightarrow> cint \<Rightarrow> cint \<Rightarrow> cint \<Rightarrow> cint \<Rightarrow> ActivityMonitor \<Rightarrow> ActivityMonitor" where
  "set_parameters asg noise activity idle sens s =
     assign_state asg ACTIVITY_IDLE
       (s\<lparr>noise_threshold := scast (noise * 1000),
          activity_threshold := scast (activity * 1000),
          idle_threshold := scast (idle * 1000),
          sensitivity := sens\<rparr>)"

definition get_parameters :: "ActivityMonitor \<Rightarrow> cint \<times> cint \<times> cint \<times> cint" where
  "get_parameters s =
     (to_msec (noise_threshold s), to_msec (activity_threshold s),
      to_msec (idle_threshold s), sensitivity s)"

definition shift_time :: "cint \<Rightarrow> ActivityMonitor \<Rightarrow> ActivityMonitor" where
  "shift_time delta s =
     (let d = (scast (delta * G_USEC_PER_SEC) :: gint64);
          s1 = lock_lock s;
          s2 = (if last_action_time s1 \<noteq> 0
                then s1\<lparr>last_action_time := last_action_time s1 + d\<rparr> else s1);
          s3 = (if first_action_time s2 \<noteq> 0
                then s2\<lparr>first_action_time := first_action_time s2 + d\<rparr> else s2)
      in lock_unlock s3)"

definition set_listener :: "nat option \<Rightarrow> ActivityMonitor \<Rightarrow> ActivityMonitor" where
  "set_listener l s = lock_unlock ((lock_lock s)\<lparr>listener := l\<rparr>)"

text \<open>
  \<open>reply\<close> is what the listener's \<^verbatim>\<open>action_notify()\<close> returns if it is called.
\<close>

definition call_listener :: "bool \<Rightarrow> ActivityMonitor \<Rightarrow> ActivityMonitor" where
  "call_listener reply s =
     (let s1 = lock_lock s;
          l = listener s1;
          s2 = lock_unlock s1
      in case l of
           None \<Rightarrow> s2
         | Some p \<Rightarrow>
             (let s3 = s2\<lparr>trace := trace s2 @ [Notified p (lock s2)]\<rparr>
              in if \<not> reply
                 then lock_unlock ((lock_lock s3)\<lparr>listener := None\<rparr>)
                 else s3))"

definition action_notify ::
  "assignment \<Rightarrow> gint64 \<Rightarrow> bool \<Rightarrow> ActivityMonitor \<Rightarrow> ActivityMonitor" where
  "action_notify asg now reply s =
     (let s0 = (lock_lock s)\<lparr>trace := trace s @ [Action now]\<rparr>;
          s1 = (case activity_state s0 of
                  ACTIVITY_IDLE \<Rightarrow>
                    (let s' = s0\<lparr>first_action_time := now, last_action_time := now\<rparr>
                     in if activity_threshold s' = 0
                        then assign_state asg ACTIVITY_ACTIVE s'
                        else assign_state asg ACTIVITY_NOISE s')
                | ACTIVITY_NOISE \<Rightarrow>
                    (let tv = now - last_action_time s0
                     in if noise_threshold s0 <s tv
                        then s0\<lparr>first_action_time := now\<rparr>
                        else (let tv' = now - first_action_time s0
                              in if activity_threshold s0 \<le>s tv'
                                 then assign_state asg ACTIVITY_ACTIVE s0
                                 else s0))
                | _ \<Rightarrow> s0);
          s2 = s1\<lparr>last_action_time := now\<rparr>
      in call_listener reply (lock_unlock s2))"

definition mouse_notify ::
  "assignment \<Rightarrow> gint64 \<Rightarrow> bool \<Rightarrow> cint \<Rightarrow> cint \<Rightarrow> cint \<Rightarrow> ActivityMonitor \<Rightarrow> ActivityMonitor" where
  "mouse_notify asg now reply x y wheel_delta s =
     (let s1 = lock_lock s;
          delta_x = x - prev_x s1;
          delta_y = y - prev_y s1;
          s2 = s1\<lparr>prev_x := x, prev_y := y\<rparr>;
          s3 = (if sensitivity s2 \<le>s abs_int delta_x \<or> sensitivity s2 \<le>s abs_int delta_y
                   \<or> wheel_delta \<noteq> 0 \<or> button_is_pressed s2
                then action_notify asg now reply s2
                else s2)
      in lock_unlock s3)"

definition button_notify ::
  "assignment \<Rightarrow> gint64 \<Rightarrow> bool \<Rightarrow> bool \<Rightarrow> ActivityMonitor \<Rightarrow> ActivityMonitor" where
  "button_notify asg now reply is_press s =
     (let s1 = (lock_lock s)\<lparr>button_is_pressed := is_press\<rparr>;
          s2 = (if is_press then action_notify asg now reply s1 else s1)
      in lock_unlock s2)"

definition keyboard_notify ::
  "assignment \<Rightarrow> gint64 \<Rightarrow> bool \<Rightarrow> bool \<Rightarrow> ActivityMonitor \<Rightarrow> ActivityMonitor" where
  "keyboard_notify asg now reply repeat s =
     lock_unlock (action_notify asg now reply (lock_lock s))"

section \<open>Sequences of calls\<close>

text \<open>
  One call of the public interface, with the clock value it reads and the reply the
  listener gives if it is called during it.
\<close>

datatype call =
    Suspend
  | Resume
  | ForceIdle
  | GetCurrentState gint64
  | SetParameters cint cint cint cint
  | ShiftTime cint
  | SetListener "nat option"
  | ActionNotify gint64 bool
  | MouseNotify gint64 bool cint cint cint
  | ButtonNotify gint64 bool bool
  | KeyboardNotify gint64 bool bool

fun exec :: "assignment \<Rightarrow> call \<Rightarrow> ActivityMonitor \<Rightarrow> ActivityMonitor" where
  "exec asg Suspend s = suspend asg s"
| "exec asg Resume s = resume asg s"
| "exec asg ForceIdle s = force_idle asg s"
| "exec asg (GetCurrentState now) s = snd (get_current_state asg now s)"
| "exec asg (SetParameters n a i z) s = set_parameters asg n a i z s"
| "exec asg (ShiftTime d) s = shift_time d s"
| "exec asg (SetListener l) s = set_listener l s"
| "exec asg (ActionNotify now reply) s = action_notify asg now reply s"
| "exec asg (MouseNotify now reply x y w) s = mouse_notify asg now reply x y w s"
| "exec asg (ButtonNotify now reply b) s = button_notify asg now reply b s"
| "exec asg (KeyboardNotify now reply r) s = keyboard_notify asg now reply r s"

fun execs :: "assignment \<Rightarrow> call list \<Rightarrow> ActivityMonitor \<Rightarrow> ActivityMonitor" where
  "execs asg [] s = s"
| "execs asg (c # cs) s = execs asg cs (exec asg c s)"

fun is_SetListener :: "call \<Rightarrow> bool" where
  "is_SetListener (SetListener l) = True"
| "is_SetListener c = False"

text \<open>
  The listener calls (each with the number of lock acquisitions held at the call), the
  published values and the number of actions in a trace.
\<close>

fun notified :: "event list \<Rightarrow> (nat \<times> nat) list" where
  "notified [] = []"
| "notified (Notified p n # es) = (p, n) # notified es"
| "notified (e # es) = notified es"

fun published :: "event list \<Rightarrow> ActivityState list" where
  "published [] = []"
| "published (Published v # es) = v # published es"
| "published (e # es) = published es"

fun actions :: "event list \<Rightarrow> nat" where
  "actions [] = 0"
| "actions (Action t # es) = Suc (actions es)"
| "actions (e # es) = actions es"

text \<open>
  Modelled from the spec: the in-class member initialisers of the class declaration,
  which is not in the source file. The spec gives the initial state \<open>Idle\<close>, both
  timestamps unset (0), no button held and no listener; it gives no initial pointer
  position and no initial sensitivity, which are arguments here.
\<close>

definition initial_members :: "cint \<Rightarrow> cint \<Rightarrow> cint \<Rightarrow> ActivityMonitor" where
  "initial_members px py sens =
     \<lparr>activity_state = ACTIVITY_IDLE, noise_threshold = 0, activity_threshold = 0,
      idle_threshold = 0, sensitivity = sens, first_action_time = 0,
      last_action_time = 0, prev_x = px, prev_y = py, button_is_pressed = False,
      listener = None, lock = 0, trace = []\<rparr>"

definition new_monitor :: "cint \<Rightarrow> cint \<Rightarrow> cint \<Rightarrow> ActivityMonitor" where
  "new_monitor px py sens = ActivityMonitor_ctor (initial_members px py sens)"

section \<open>Observations on traces\<close>

text \<open>
  The events an operation appended to the trace, given the monitor before and after it
  (operations only append).
\<close>

definition emitted :: "ActivityMonitor \<Rightarrow> ActivityMonitor \<Rightarrow> event list" where
  "emitted s s' = drop (length (trace s)) (trace s')"

text \<open>
  The operations whose body calls \<^verbatim>\<open>activity_state.publish()\<close>:
  \<^verbatim>\<open>suspend\<close>, \<^verbatim>\<open>resume\<close>, \<^verbatim>\<open>force_idle\<close> and
  \<^verbatim>\<open>get_current_state\<close>.
\<close>

fun publishes :: "call \<Rightarrow> bool" where
  "publishes Suspend = True"
| "publishes Resume = True"
| "publishes ForceIdle = True"
| "publishes (GetCurrentState now) = True"
| "publishes c = False"

section \<open>Example states\<close>

text \<open>
  A monitor in the middle of a burst that began at 1 s, with its last action at 2.5 s,
  and a monitor in confirmed activity whose last action was at 4 s; both with the
  constructor's thresholds.
\<close>

definition noise_example :: ActivityMonitor where
  "noise_example = (new_monitor 0 0 3)\<lparr>activity_state := ACTIVITY_NOISE,
      first_action_time := 1000000, last_action_time := 2500000\<rparr>"

definition active_example :: ActivityMonitor where
  "active_example = (new_monitor 0 0 3)\<lparr>activity_state := ACTIVITY_ACTIVE,
      first_action_time := 1000000, last_action_time := 4000000\<rparr>"

text \<open>
  A new monitor with listener 0 subscribed; a new monitor after \<^verbatim>\<open>suspend()\<close>;
  and a new monitor after one action at time 5 followed by \<^verbatim>\<open>force_idle()\<close>, which
  leaves \<open>first_action_time\<close> at 5 and clears \<open>last_action_time\<close>.
\<close>

definition listening_example :: ActivityMonitor where
  "listening_example = set_listener (Some 0) (new_monitor 0 0 3)"

definition suspended_example :: ActivityMonitor where
  "suspended_example = suspend self_publishing (new_monitor 0 0 3)"


section \<open>Basic facts\<close>

lemmas op_defs = lock_lock_def lock_unlock_def assign_state_def publish_def

lemmas example_defs = new_monitor_def ActivityMonitor_ctor_def initial_members_def
  G_USEC_PER_SEC_def self_publishing_def

lemma actions_append: "actions (xs @ ys) = actions xs + actions ys"
  by (induction xs rule: actions.induct) simp_all

lemma notified_append: "notified (xs @ ys) = notified xs @ notified ys"
  by (induction xs rule: notified.induct) simp_all

lemma published_append: "published (xs @ ys) = published xs @ published ys"
  by (induction xs rule: published.induct) simp_all

lemma actions_map_Published: "actions (map Published vs) = 0"
  by (induction vs) simp_all

lemma notified_map_Published: "notified (map Published vs) = []"
  by (induction vs) simp_all

lemma published_map_Published: "published (map Published vs) = vs"
  by (induction vs) simp_all

lemmas trace_simps = actions_append notified_append published_append
  actions_map_Published notified_map_Published published_map_Published

subsection \<open>\<^verbatim>\<open>call_listener\<close>\<close>

lemma call_listener_fields:
  "activity_state (call_listener reply s) = activity_state s"
  "first_action_time (call_listener reply s) = first_action_time s"
  "last_action_time (call_listener reply s) = last_action_time s"
  "prev_x (call_listener reply s) = prev_x s"
  "prev_y (call_listener reply s) = prev_y s"
  by (simp_all add: call_listener_def lock_lock_def lock_unlock_def Let_def split: option.split)

lemma call_listener_trace:
  "trace (call_listener reply s)
     = trace s @ (case listener s of None \<Rightarrow> [] | Some p \<Rightarrow> [Notified p (lock s)])"
  by (simp add: call_listener_def lock_lock_def lock_unlock_def Let_def split: option.split)

lemma call_listener_listener:
  "listener (call_listener reply s) = (if reply then listener s else None)"
  by (simp add: call_listener_def lock_lock_def lock_unlock_def Let_def split: option.split)

lemma call_listener_lock: "lock (call_listener reply s) = lock s"
  by (simp add: call_listener_def lock_lock_def lock_unlock_def Let_def split: option.split)

subsection \<open>\<^verbatim>\<open>action_notify\<close>\<close>

lemma action_notify_listener:
  "listener (action_notify asg now reply s) = (if reply then listener s else None)"
  by (simp add: action_notify_def call_listener_listener op_defs Let_def
      split: ActivityState.split)

lemma action_notify_lock: "lock (action_notify asg now reply s) = lock s"
  by (simp add: action_notify_def call_listener_lock op_defs Let_def split: ActivityState.split)

lemma action_notify_prev:
  "prev_x (action_notify asg now reply s) = prev_x s"
  "prev_y (action_notify asg now reply s) = prev_y s"
  by (simp_all add: action_notify_def call_listener_fields op_defs Let_def
      split: ActivityState.split)

lemma action_notify_last: "last_action_time (action_notify asg now reply s) = now"
  by (simp add: action_notify_def call_listener_fields op_defs Let_def
      split: ActivityState.split)

lemma action_notify_actions:
  "actions (trace (action_notify asg now reply s)) = Suc (actions (trace s))"
  by (simp add: action_notify_def call_listener_trace op_defs Let_def trace_simps
      split: ActivityState.split option.split)

text \<open>
  \<^verbatim>\<open>action_notify\<close> calls the listener, if there is one, with as many lock
  acquisitions held as its caller held: its own acquisition is released first.
\<close>

lemma action_notify_notified:
  "notified (trace (action_notify asg now reply s))
     = notified (trace s) @ (case listener s of None \<Rightarrow> [] | Some p \<Rightarrow> [(p, lock s)])"
  by (simp add: action_notify_def call_listener_trace op_defs Let_def trace_simps
      split: ActivityState.split option.split)

lemma trace_action_notify:
  "\<exists>es. trace (action_notify asg now reply s) = trace s @ es
        \<and> (asg = self_publishing
             \<and> activity_state (action_notify asg now reply s) \<noteq> activity_state s \<longrightarrow>
           published es \<noteq> []
           \<and> last (published es) = activity_state (action_notify asg now reply s))"
  by (simp add: action_notify_def call_listener_trace call_listener_fields op_defs Let_def
      trace_simps self_publishing_def split: ActivityState.split option.split)

subsection \<open>The callbacks that wrap \<^verbatim>\<open>action_notify\<close>\<close>

text \<open>
  \<^verbatim>\<open>keyboard_notify\<close>, \<^verbatim>\<open>button_notify\<close> and \<^verbatim>\<open>mouse_notify\<close> hold
  their own acquisition of the lock around the call of \<^verbatim>\<open>action_notify\<close>, so the
  listener is called with one acquisition more than their caller held.
\<close>

lemma keyboard_notify_notified:
  "notified (trace (keyboard_notify asg now reply repeat s))
     = notified (trace s)
       @ (case listener s of None \<Rightarrow> [] | Some p \<Rightarrow> [(p, Suc (lock s))])"
  by (simp add: keyboard_notify_def action_notify_notified lock_lock_def lock_unlock_def
      split: option.split)

lemma button_notify_notified:
  "notified (trace (button_notify asg now reply True s))
     = notified (trace s)
       @ (case listener s of None \<Rightarrow> [] | Some p \<Rightarrow> [(p, Suc (lock s))])"
  by (simp add: button_notify_def action_notify_notified lock_lock_def lock_unlock_def Let_def
      split: option.split)

lemma mouse_wheel_notified:
  assumes "wheel_delta \<noteq> 0"
  shows "notified (trace (mouse_notify asg now reply x y wheel_delta s))
     = notified (trace s)
       @ (case listener s of None \<Rightarrow> [] | Some p \<Rightarrow> [(p, Suc (lock s))])"
  using assms
  by (simp add: mouse_notify_def action_notify_notified lock_lock_def lock_unlock_def Let_def
      split: option.split)

subsection \<open>Traces of single calls and of sequences\<close>

lemma trace_exec:
  "\<exists>es. trace (exec asg c s) = trace s @ es
     \<and> (publishes c \<longrightarrow> es \<noteq> [] \<and> last es = Published (activity_state (exec asg c s)))
     \<and> (asg = self_publishing \<and> activity_state (exec asg c s) \<noteq> activity_state s \<longrightarrow>
          published es \<noteq> [] \<and> last (published es) = activity_state (exec asg c s))"
proof (cases c)
  case (ActionNotify now reply)
  then show ?thesis using trace_action_notify [of asg now reply s] by auto
next
  case (MouseNotify now reply x y w)
  then show ?thesis
    using trace_action_notify [of asg now reply "(lock_lock s)\<lparr>prev_x := x, prev_y := y\<rparr>"]
    by (auto simp add: mouse_notify_def lock_lock_def lock_unlock_def Let_def)
next
  case (ButtonNotify now reply b)
  then show ?thesis
    using trace_action_notify [of asg now reply "(lock_lock s)\<lparr>button_is_pressed := b\<rparr>"]
    by (auto simp add: button_notify_def lock_lock_def lock_unlock_def Let_def)
next
  case (KeyboardNotify now reply r)
  then show ?thesis
    using trace_action_notify [of asg now reply "lock_lock s"]
    by (auto simp add: keyboard_notify_def lock_lock_def lock_unlock_def Let_def)
qed (simp_all add: suspend_def resume_def force_idle_def get_current_state_def
      set_parameters_def shift_time_def set_listener_def op_defs Let_def trace_simps
      self_publishing_def)

lemma exec_without_listener:
  assumes "listener s = None" "\<not> is_SetListener c"
  shows "listener (exec asg c s) = None
       \<and> notified (trace (exec asg c s)) = notified (trace s)"
  using assms
  by (cases c)
     (simp_all add: suspend_def resume_def force_idle_def get_current_state_def
        set_parameters_def shift_time_def mouse_notify_def button_notify_def
        keyboard_notify_def action_notify_listener action_notify_notified op_defs Let_def
        trace_simps)

lemma execs_without_listener:
  assumes "listener s = None" "list_all (\<lambda>c. \<not> is_SetListener c) cs"
  shows "listener (execs asg cs s) = None
       \<and> notified (trace (execs asg cs s)) = notified (trace s)"
  using assms
proof (induction cs arbitrary: s)
  case Nil
  then show ?case by simp
next
  case (Cons c cs)
  from Cons.prems have c: "\<not> is_SetListener c"
    and cs: "list_all (\<lambda>c. \<not> is_SetListener c) cs"
    by simp_all
  from exec_without_listener [OF Cons.prems(1) c, of asg]
  have l: "listener (exec asg c s) = None"
    and n: "notified (trace (exec asg c s)) = notified (trace s)" by simp_all
  from Cons.IH [OF l cs] n show ?case by simp
qed

text \<open>
  The burst of the specification's example, with the constructor's thresholds: key
  presses at 0, 0.9, 1.8 and 2.7 seconds. The first three leave the monitor in Noise,
  the fourth makes it Active; a query at 7.8 seconds, more than 5 seconds after the
  last key press, makes it Idle.
\<close>

lemma keyboard_burst:
  "activity_state (execs self_publishing
      [KeyboardNotify 0 True False, KeyboardNotify 900000 True False,
       KeyboardNotify 1800000 True False] (new_monitor 0 0 3)) = ACTIVITY_NOISE"
  "activity_state (execs self_publishing
      [KeyboardNotify 0 True False, KeyboardNotify 900000 True False,
       KeyboardNotify 1800000 True False, KeyboardNotify 2700000 True False]
      (new_monitor 0 0 3)) = ACTIVITY_ACTIVE"
  "activity_state (execs self_publishing
      [KeyboardNotify 0 True False, KeyboardNotify 900000 True False,
       KeyboardNotify 1800000 True False, KeyboardNotify 2700000 True False,
       GetCurrentState 7700000] (new_monitor 0 0 3)) = ACTIVITY_ACTIVE"
  "activity_state (execs self_publishing
      [KeyboardNotify 0 True False, KeyboardNotify 900000 True False,
       KeyboardNotify 1800000 True False, KeyboardNotify 2700000 True False,
       GetCurrentState 7800000] (new_monitor 0 0 3)) = ACTIVITY_IDLE"
  by (simp_all add: keyboard_notify_def action_notify_def call_listener_def
      get_current_state_def op_defs example_defs Let_def)

subsection \<open>The microsecond product of \<^verbatim>\<open>shift_time\<close>\<close>


text \<open>
  Beyond that range the \<^verbatim>\<open>int\<close> product overflows. With the two's complement
  wrap-around of this model, a shift by one hour moves the timestamp back by about 695
  seconds.
\<close>

lemma shift_time_product_wraps:
  "last_action_time (shift_time 3600 active_example) = 4000000 - 694967296"
  by (simp add: shift_time_def active_example_def example_defs op_defs Let_def)

section \<open>The transition table of \<^verbatim>\<open>action_notify\<close>\<close>

text \<open>
  C1. An action at time \<open>now\<close> in state Noise: if \<open>now - last_action_time\<close> exceeds
  \<open>noise_threshold\<close>, the state stays Noise and \<open>first_action_time\<close> becomes \<open>now\<close>;
  otherwise the state becomes Active if \<open>now - first_action_time\<close> is at least
  \<open>activity_threshold\<close> and stays Noise if not (and the burst start is kept); in
  every case \<open>last_action_time\<close> becomes \<open>now\<close>. The differences and comparisons
  are the ones the code computes on \<^verbatim>\<open>gint64\<close>.
\<close>

theorem action_notify_noise:
  assumes "activity_state s = ACTIVITY_NOISE"
  shows "(noise_threshold s <s now - last_action_time s \<longrightarrow>
            activity_state (action_notify asg now reply s) = ACTIVITY_NOISE
          \<and> first_action_time (action_notify asg now reply s) = now)
       \<and> (\<not> noise_threshold s <s now - last_action_time s \<longrightarrow>
            activity_state (action_notify asg now reply s)
              = (if activity_threshold s \<le>s now - first_action_time s
                 then ACTIVITY_ACTIVE else ACTIVITY_NOISE)
          \<and> first_action_time (action_notify asg now reply s) = first_action_time s)
       \<and> last_action_time (action_notify asg now reply s) = now"
  using assms by (simp add: action_notify_def call_listener_fields op_defs Let_def)

theorem action_notify_noise_witness:
  "activity_state noise_example = ACTIVITY_NOISE
   \<and> \<not> noise_threshold noise_example <s 3000000 - last_action_time noise_example
   \<and> activity_state (action_notify self_publishing 3000000 True noise_example) = ACTIVITY_ACTIVE
   \<and> last_action_time (action_notify self_publishing 3000000 True noise_example) = 3000000
   \<and> noise_threshold noise_example <s 3500001 - last_action_time noise_example
   \<and> activity_state (action_notify self_publishing 3500001 True noise_example) = ACTIVITY_NOISE
   \<and> first_action_time (action_notify self_publishing 3500001 True noise_example) = 3500001"
  using action_notify_noise [of noise_example 3000000 self_publishing True]
    action_notify_noise [of noise_example 3500001 self_publishing True]
  by (simp add: noise_example_def example_defs)

text \<open>
  C2. An action at time \<open>now\<close> in state Idle sets \<open>first_action_time\<close> and
  \<open>last_action_time\<close> to \<open>now\<close>; the state becomes Active if
  \<open>activity_threshold\<close> is 0 and Noise otherwise.
\<close>

theorem action_notify_idle:
  assumes "activity_state s = ACTIVITY_IDLE"
  shows "first_action_time (action_notify asg now reply s) = now
       \<and> last_action_time (action_notify asg now reply s) = now
       \<and> activity_state (action_notify asg now reply s)
           = (if activity_threshold s = 0 then ACTIVITY_ACTIVE else ACTIVITY_NOISE)"
  using assms by (simp add: action_notify_def call_listener_fields op_defs Let_def)

theorem action_notify_idle_witness:
  "activity_state (new_monitor 0 0 3) = ACTIVITY_IDLE
   \<and> first_action_time (action_notify self_publishing 42 True (new_monitor 0 0 3)) = 42
   \<and> last_action_time (action_notify self_publishing 42 True (new_monitor 0 0 3)) = 42
   \<and> activity_state (action_notify self_publishing 42 True (new_monitor 0 0 3)) = ACTIVITY_NOISE
   \<and> activity_state ((new_monitor 0 0 3)\<lparr>activity_threshold := 0\<rparr>) = ACTIVITY_IDLE
   \<and> activity_state (action_notify self_publishing 42 True
        ((new_monitor 0 0 3)\<lparr>activity_threshold := 0\<rparr>)) = ACTIVITY_ACTIVE"
  using action_notify_idle [of "new_monitor 0 0 3" self_publishing 42 True]
    action_notify_idle [of "(new_monitor 0 0 3)\<lparr>activity_threshold := 0\<rparr>" self_publishing 42 True]
  by (simp add: example_defs)

text \<open>
  C4, as the code has it. An action at time \<open>now\<close> in state Suspended leaves the
  state Suspended and \<open>first_action_time\<close> unchanged, sets \<open>last_action_time\<close> to
  \<open>now\<close> (the store after the \<^verbatim>\<open>switch\<close> is not guarded by the state) and
  calls the listener if one is set.
\<close>

theorem action_notify_suspended:
  assumes "activity_state s = ACTIVITY_SUSPENDED"
  shows "activity_state (action_notify asg now reply s) = ACTIVITY_SUSPENDED
       \<and> first_action_time (action_notify asg now reply s) = first_action_time s
       \<and> last_action_time (action_notify asg now reply s) = now
       \<and> notified (trace (action_notify asg now reply s))
           = notified (trace s)
             @ (case listener s of None \<Rightarrow> [] | Some p \<Rightarrow> [(p, lock s)])"
  using assms
  by (simp add: action_notify_notified)
     (simp add: action_notify_def call_listener_fields op_defs Let_def)

theorem action_notify_suspended_witness:
  "activity_state suspended_example = ACTIVITY_SUSPENDED
   \<and> activity_state (action_notify self_publishing 7 True suspended_example) = ACTIVITY_SUSPENDED
   \<and> first_action_time (action_notify self_publishing 7 True suspended_example) = 0
   \<and> last_action_time (action_notify self_publishing 7 True suspended_example) = 7"
  using action_notify_suspended [of suspended_example self_publishing 7 True]
  by (simp add: suspended_example_def suspend_def op_defs example_defs)

text \<open>
  C4 as stated fails: a new monitor is suspended, then an action arrives at time 7.
  The state is still Suspended and \<open>first_action_time\<close> is still 0, but
  \<open>last_action_time\<close> has changed from 0 to 7.
\<close>

theorem action_notify_suspended_counterexample:
  "activity_state suspended_example = ACTIVITY_SUSPENDED
   \<and> \<not> (activity_state (action_notify self_publishing 7 True suspended_example)
          = ACTIVITY_SUSPENDED
        \<and> first_action_time (action_notify self_publishing 7 True suspended_example)
          = first_action_time suspended_example
        \<and> last_action_time (action_notify self_publishing 7 True suspended_example)
          = last_action_time suspended_example)"
  by (simp add: action_notify_def call_listener_fields suspended_example_def suspend_def
      op_defs example_defs Let_def)

section \<open>Lazy idle detection\<close>

text \<open>
  C3. \<^verbatim>\<open>get_current_state\<close> at time \<open>now\<close>: in state Active with
  \<open>now - last_action_time\<close> greater than \<open>idle_threshold\<close> the stored state becomes
  Idle and Idle is returned; in state Active with \<open>now - last_action_time\<close> at most
  \<open>idle_threshold\<close> Active is returned and kept; in every other state the stored
  state is returned and kept.
\<close>

theorem get_current_state_lazy_idle:
  "(activity_state s = ACTIVITY_ACTIVE \<and> idle_threshold s <s now - last_action_time s \<longrightarrow>
      fst (get_current_state asg now s) = ACTIVITY_IDLE
      \<and> activity_state (snd (get_current_state asg now s)) = ACTIVITY_IDLE)
   \<and> (activity_state s = ACTIVITY_ACTIVE \<and> now - last_action_time s \<le>s idle_threshold s \<longrightarrow>
      fst (get_current_state asg now s) = ACTIVITY_ACTIVE
      \<and> activity_state (snd (get_current_state asg now s)) = ACTIVITY_ACTIVE)
   \<and> (activity_state s \<noteq> ACTIVITY_ACTIVE \<longrightarrow>
      fst (get_current_state asg now s) = activity_state s
      \<and> activity_state (snd (get_current_state asg now s)) = activity_state s)"
  by (simp add: get_current_state_def op_defs Let_def signed.not_less signed.not_le)

theorem get_current_state_lazy_idle_witness:
  "(activity_state active_example = ACTIVITY_ACTIVE
      \<and> idle_threshold active_example <s 9000001 - last_action_time active_example)
   \<and> fst (get_current_state self_publishing 9000001 active_example) = ACTIVITY_IDLE
   \<and> (activity_state active_example = ACTIVITY_ACTIVE
      \<and> 9000000 - last_action_time active_example \<le>s idle_threshold active_example)
   \<and> fst (get_current_state self_publishing 9000000 active_example) = ACTIVITY_ACTIVE
   \<and> activity_state suspended_example \<noteq> ACTIVITY_ACTIVE
   \<and> fst (get_current_state self_publishing 9000001 suspended_example) = ACTIVITY_SUSPENDED"
  using get_current_state_lazy_idle [of active_example 9000001 self_publishing]
    get_current_state_lazy_idle [of active_example 9000000 self_publishing]
    get_current_state_lazy_idle [of suspended_example 9000001 self_publishing]
  by (simp add: active_example_def suspended_example_def example_defs suspend_def op_defs)

section \<open>Mouse debounce\<close>

text \<open>
  C5. \<^verbatim>\<open>mouse_notify(x, y, wheel_delta)\<close> with \<open>dx = x - prev_x\<close> and
  \<open>dy = y - prev_y\<close>: \<open>prev_x\<close> and \<open>prev_y\<close> become \<open>x\<close> and \<open>y\<close> in every case;
  if \<open>|dx|\<close> and \<open>|dy|\<close> are below the sensitivity, the wheel delta is 0 and no button
  is held, no action is registered (nothing but the stored position changes); if
  \<open>|dx|\<close> or \<open>|dy|\<close> reaches the sensitivity, or the wheel delta is not 0, or a button
  is held, exactly one action is registered: the call is one run of
  \<^verbatim>\<open>action_notify\<close> on the monitor with the new position stored, inside the
  caller's lock, so \<open>last_action_time\<close> becomes \<open>now\<close> and one entry of
  \<^verbatim>\<open>action_notify\<close> is recorded. Differences and absolute values are the ones
  the code computes on \<^verbatim>\<open>int\<close>.
\<close>

theorem mouse_notify_debounce:
  "prev_x (mouse_notify asg now reply x y w s) = x
   \<and> prev_y (mouse_notify asg now reply x y w s) = y
   \<and> (abs_int (x - prev_x s) <s sensitivity s \<and> abs_int (y - prev_y s) <s sensitivity s
        \<and> w = 0 \<and> \<not> button_is_pressed s
      \<longrightarrow> actions (trace (mouse_notify asg now reply x y w s)) = actions (trace s)
        \<and> mouse_notify asg now reply x y w s = s\<lparr>prev_x := x, prev_y := y\<rparr>)
   \<and> (sensitivity s \<le>s abs_int (x - prev_x s) \<or> sensitivity s \<le>s abs_int (y - prev_y s)
        \<or> w \<noteq> 0 \<or> button_is_pressed s
      \<longrightarrow> actions (trace (mouse_notify asg now reply x y w s)) = Suc (actions (trace s))
        \<and> mouse_notify asg now reply x y w s
            = lock_unlock (action_notify asg now reply
                ((lock_lock s)\<lparr>prev_x := x, prev_y := y\<rparr>))
        \<and> last_action_time (mouse_notify asg now reply x y w s) = now)"
  by (auto simp add: mouse_notify_def lock_lock_def lock_unlock_def Let_def action_notify_prev
      action_notify_actions action_notify_last signed.not_le)

theorem mouse_notify_debounce_witness:
  "(abs_int (2 - prev_x (new_monitor 0 0 3)) <s sensitivity (new_monitor 0 0 3)
    \<and> abs_int (- 2 - prev_y (new_monitor 0 0 3)) <s sensitivity (new_monitor 0 0 3)
    \<and> (0::cint) = 0 \<and> \<not> button_is_pressed (new_monitor 0 0 3))
   \<and> actions (trace (mouse_notify self_publishing 9 True 2 (- 2) 0 (new_monitor 0 0 3))) = 0
   \<and> prev_x (mouse_notify self_publishing 9 True 2 (- 2) 0 (new_monitor 0 0 3)) = 2
   \<and> prev_y (mouse_notify self_publishing 9 True 2 (- 2) 0 (new_monitor 0 0 3)) = - 2
   \<and> activity_state (mouse_notify self_publishing 9 True 2 (- 2) 0 (new_monitor 0 0 3))
       = ACTIVITY_IDLE
   \<and> last_action_time (mouse_notify self_publishing 9 True 2 (- 2) 0 (new_monitor 0 0 3)) = 0
   \<and> sensitivity (new_monitor 0 0 3) \<le>s abs_int (- 3 - prev_x (new_monitor 0 0 3))
   \<and> actions (trace (mouse_notify self_publishing 9 True (- 3) 0 0 (new_monitor 0 0 3))) = 1
   \<and> activity_state (mouse_notify self_publishing 9 True (- 3) 0 0 (new_monitor 0 0 3))
       = ACTIVITY_NOISE
   \<and> first_action_time (mouse_notify self_publishing 9 True (- 3) 0 0 (new_monitor 0 0 3)) = 9
   \<and> last_action_time (mouse_notify self_publishing 9 True (- 3) 0 0 (new_monitor 0 0 3)) = 9"
  using mouse_notify_debounce [of self_publishing 9 True 2 "- 2" 0 "new_monitor 0 0 3"]
    mouse_notify_debounce [of self_publishing 9 True "- 3" 0 0 "new_monitor 0 0 3"]
  by (simp add: example_defs abs_int_def word_sless_alt word_sle_eq action_notify_def
      call_listener_def op_defs Let_def)

section \<open>Listener dispatch\<close>

text \<open>
  C6 at a concrete input. A new monitor with a listener set, the lock free.
  \<^verbatim>\<open>keyboard_notify(false)\<close> and \<^verbatim>\<open>button_notify(true)\<close> call the listener
  while one acquisition of the lock is still held (the caller's own, released only after
  \<^verbatim>\<open>action_notify\<close> has returned); \<^verbatim>\<open>action_notify\<close> called directly calls
  it with the lock free. This does not depend on what the assignment publishes.
\<close>

theorem listener_called_under_lock:
  "lock listening_example = 0
   \<and> listener listening_example = Some 0
   \<and> notified (trace (keyboard_notify asg 5 True False listening_example)) = [(0, 1)]
   \<and> notified (trace (button_notify asg 5 True True listening_example)) = [(0, 1)]
   \<and> notified (trace (action_notify asg 5 True listening_example)) = [(0, 0)]"
  by (simp add: listening_example_def set_listener_def keyboard_notify_def button_notify_def
      action_notify_notified lock_lock_def lock_unlock_def example_defs Let_def)

text \<open>
  C9. When the listener answers \<^verbatim>\<open>false\<close> to a notification the listener
  reference is cleared (the notification itself was delivered), and whatever calls
  follow, as long as none of them is \<^verbatim>\<open>set_listener\<close>, deliver no further
  notification; when it answers \<^verbatim>\<open>true\<close> it stays subscribed.
\<close>

theorem listener_unsubscribed_on_false:
  assumes "listener s = Some p" "list_all (\<lambda>c. \<not> is_SetListener c) cs"
  shows "listener (action_notify asg now False s) = None
       \<and> notified (emitted s (action_notify asg now False s)) = [(p, lock s)]
       \<and> notified (trace (execs asg cs (action_notify asg now False s)))
           = notified (trace (action_notify asg now False s))
       \<and> listener (action_notify asg now True s) = Some p"
proof -
  have l: "listener (action_notify asg now False s) = None"
    by (simp add: action_notify_listener)
  obtain es where es: "trace (action_notify asg now False s) = trace s @ es"
    using trace_action_notify [of asg now False s] by blast
  have "notified (trace s) @ notified es = notified (trace s) @ [(p, lock s)]"
    using action_notify_notified [of asg now False s] assms(1) by (simp add: es notified_append)
  then have e: "notified (emitted s (action_notify asg now False s)) = [(p, lock s)]"
    by (simp add: emitted_def es)
  from execs_without_listener [OF l assms(2), of asg] l e assms(1) show ?thesis
    by (simp add: action_notify_listener)
qed

theorem listener_unsubscribed_on_false_witness:
  "listener listening_example = Some 0
   \<and> list_all (\<lambda>c. \<not> is_SetListener c)
        [KeyboardNotify 6 True False, MouseNotify 7 True 50 50 0, Suspend, ActionNotify 8 True]
   \<and> listener (action_notify self_publishing 5 False listening_example) = None
   \<and> notified (trace (action_notify self_publishing 5 False listening_example)) = [(0, 0)]
   \<and> notified (trace (execs self_publishing
        [KeyboardNotify 6 True False, MouseNotify 7 True 50 50 0, Suspend, ActionNotify 8 True]
        (action_notify self_publishing 5 False listening_example))) = [(0, 0)]
   \<and> listener (action_notify self_publishing 5 True listening_example) = Some 0"
  using listener_unsubscribed_on_false [of listening_example 0
      "[KeyboardNotify 6 True False, MouseNotify 7 True 50 50 0, Suspend, ActionNotify 8 True]"
      self_publishing 5]
  by (simp add: listening_example_def set_listener_def action_notify_notified example_defs
      lock_lock_def lock_unlock_def)

section \<open>Publication of the state\<close>

text \<open>
  Whatever the assignment operator does, \<^verbatim>\<open>suspend\<close>, \<^verbatim>\<open>resume\<close>,
  \<^verbatim>\<open>force_idle\<close> and \<^verbatim>\<open>get_current_state\<close> end with their explicit
  \<^verbatim>\<open>publish()\<close> of the state they leave. \<^verbatim>\<open>set_parameters\<close> has no such
  call: it publishes what its one assignment publishes and nothing else.
\<close>

lemma explicit_publish_last:
  assumes "publishes c"
  shows "emitted s (exec asg c s) \<noteq> []
       \<and> last (emitted s (exec asg c s)) = Published (activity_state (exec asg c s))"
  using assms trace_exec [of asg c s] by (auto simp add: emitted_def)

lemma set_parameters_published:
  "published (emitted s (set_parameters asg noise activity idle sens s))
     = asg (activity_state s) ACTIVITY_IDLE"
  by (simp add: emitted_def set_parameters_def op_defs trace_simps)

text \<open>
  C7. With the state variable that publishes itself on write, every call of the
  interface that changes the state publishes, and the last value it publishes is the
  new state: the event-driven transitions (directly and through the mouse, button and
  keyboard callbacks), \<^verbatim>\<open>suspend\<close>, \<^verbatim>\<open>resume\<close>, \<^verbatim>\<open>force_idle\<close>,
  \<^verbatim>\<open>set_parameters\<close> and the lazy idle update of \<^verbatim>\<open>get_current_state\<close>.
\<close>

theorem state_change_published:
  assumes "activity_state (exec self_publishing c s) \<noteq> activity_state s"
  shows "published (emitted s (exec self_publishing c s)) \<noteq> []
       \<and> last (published (emitted s (exec self_publishing c s)))
           = activity_state (exec self_publishing c s)"
  using assms trace_exec [of self_publishing c s] by (auto simp add: emitted_def)

theorem state_change_published_witness:
  "activity_state (exec self_publishing (SetParameters 1000 2000 5000 5) suspended_example)
      \<noteq> activity_state suspended_example
   \<and> published (emitted suspended_example
        (exec self_publishing (SetParameters 1000 2000 5000 5) suspended_example))
       = [ACTIVITY_IDLE]
   \<and> activity_state (exec self_publishing (ActionNotify 42 True) (new_monitor 0 0 3))
      \<noteq> activity_state (new_monitor 0 0 3)
   \<and> published (emitted (new_monitor 0 0 3)
        (exec self_publishing (ActionNotify 42 True) (new_monitor 0 0 3)))
       = [ACTIVITY_NOISE]
   \<and> activity_state (exec self_publishing (GetCurrentState 9000001) active_example)
      \<noteq> activity_state active_example
   \<and> published (emitted active_example
        (exec self_publishing (GetCurrentState 9000001) active_example))
       = [ACTIVITY_IDLE, ACTIVITY_IDLE]"
  using state_change_published [of "SetParameters 1000 2000 5000 5" suspended_example]
    state_change_published [of "ActionNotify 42 True" "new_monitor 0 0 3"]
    state_change_published [of "GetCurrentState 9000001" active_example]
  by (simp add: emitted_def suspended_example_def active_example_def suspend_def
      set_parameters_def get_current_state_def action_notify_def call_listener_def
      example_defs op_defs Let_def)

section \<open>Clock shifts\<close>




section \<open>Parameters\<close>

text \<open>
  C10. After the constructor the thresholds are 1, 2 and 5 seconds in microseconds,
  and \<^verbatim>\<open>get_parameters\<close> reports 1000, 2000 and 5000 milliseconds.
\<close>

theorem ctor_default_thresholds:
  "noise_threshold (ActivityMonitor_ctor m) = 1000000
   \<and> activity_threshold (ActivityMonitor_ctor m) = 2000000
   \<and> idle_threshold (ActivityMonitor_ctor m) = 5000000
   \<and> get_parameters (ActivityMonitor_ctor m) = (1000, 2000, 5000, sensitivity m)"
  by (simp add: get_parameters_def ActivityMonitor_ctor_def G_USEC_PER_SEC_def to_msec_def)

end
